theory Spec2Isabelle
  imports Main
begin

section \<open>Runtime values\<close>

text \<open>
  The functions of \<^verbatim>\<open>src/index.ts\<close> dispatch on the runtime shape of their argument, so the
  model works on untyped runtime values; the TypeScript annotations are erased at run time.
  A \<open>Date\<close> object carries its time value, milliseconds since the epoch, or \<open>None\<close> when the
  time value is \<open>NaN\<close> (an "Invalid Date"). A plain object is the list of its named data
  properties, read with \<open>map_of\<close>; an array carries its elements only. The carrier \<open>'n\<close> of
  numbers is left open: the code never inspects a number, it only hands one back.
\<close>

datatype 'n jsval =
    JUndefined
  | JNull
  | JBoolean bool
  | JNumber 'n
  | JString string
  | JDate "int option"
  | JArray "'n jsval list"
  | JObject "(string \<times> 'n jsval) list"

text \<open>A thrown error object: the name of its constructor and its message.\<close>

datatype exn = JsError string string

text \<open>\<^verbatim>\<open>typeof v\<close>.\<close>

fun typeof :: "'n jsval \<Rightarrow> string" where
  "typeof JUndefined = ''undefined''"
| "typeof JNull = ''object''"
| "typeof (JBoolean b) = ''boolean''"
| "typeof (JNumber n) = ''number''"
| "typeof (JString s) = ''string''"
| "typeof (JDate t) = ''object''"
| "typeof (JArray xs) = ''object''"
| "typeof (JObject ps) = ''object''"

text \<open>\<^verbatim>\<open>v instanceof Date\<close>.\<close>

fun instanceofDate :: "'n jsval \<Rightarrow> bool" where
  "instanceofDate (JDate t) = True"
| "instanceofDate v = False"

text \<open>
  \<^verbatim>\<open>v.k\<close>: reading a property of \<open>null\<close> or \<open>undefined\<close> throws a \<open>TypeError\<close>; a property
  that a value does not have reads as \<open>undefined\<close>.
\<close>

fun getProperty :: "'n jsval \<Rightarrow> string \<Rightarrow> exn + 'n jsval" where
  "getProperty JUndefined k = Inl (JsError ''TypeError'' ''Cannot read properties of undefined'')"
| "getProperty JNull k = Inl (JsError ''TypeError'' ''Cannot read properties of null'')"
| "getProperty (JObject ps) k = Inr (case map_of ps k of None \<Rightarrow> JUndefined | Some v \<Rightarrow> v)"
| "getProperty v k = Inr JUndefined"

section \<open>The schema library\<close>

text \<open>
  \<^verbatim>\<open>src/index.ts\<close> imports \<^verbatim>\<open>z\<close> from the schema library \<^verbatim>\<open>zod\<close>, which is not among the
  sources. What the code uses of it, \<^verbatim>\<open>z.object\<close>, \<^verbatim>\<open>z.date\<close> and \<^verbatim>\<open>safeParse\<close>, is
  modelled here from the spec, which describes the check as "object with a \<open>birthday\<close> field
  that is actually a date instant, not just a field named \<open>birthday\<close>". A schema is the
  predicate of the values it accepts.
\<close>

type_synonym 'n schema = "'n jsval \<Rightarrow> bool"

text \<open>
  Modelled from the spec: \<^verbatim>\<open>z.date()\<close>, which is library code outside the sources. It
  accepts a \<open>Date\<close> object that denotes an instant ("actually a date instant"): a \<open>Date\<close>
  whose time value is \<open>NaN\<close> denotes none and is refused, as is every value that is not a
  \<open>Date\<close>.
\<close>

fun zDate :: "'n schema" where
  "zDate (JDate (Some t)) = True"
| "zDate v = False"

text \<open>
  Modelled from the spec: \<^verbatim>\<open>z.object({...})\<close>, which is library code outside the sources.
  It accepts a plain object (not \<open>null\<close>, not an array, not a \<open>Date\<close>, not a primitive value)
  each of whose listed keys reads as a value its schema accepts; a key that is not there
  reads as \<open>undefined\<close>, and keys that are not listed are ignored.
\<close>

fun zObject :: "(string \<times> 'n schema) list \<Rightarrow> 'n schema" where
  "zObject shape (JObject ps) =
     list_all (\<lambda>(k, sch). sch (case map_of ps k of None \<Rightarrow> JUndefined | Some v \<Rightarrow> v)) shape"
| "zObject shape v = False"

text \<open>
  Modelled from the spec: the \<open>success\<close> field of \<^verbatim>\<open>schema.safeParse(value)\<close>, which is
  library code outside the sources. It validates without throwing ("returning false does not
  throw") and reports whether the schema accepts the value.
\<close>

definition safeParse_success :: "'n schema \<Rightarrow> 'n jsval \<Rightarrow> bool" where
  "safeParse_success sch v = sch v"

section \<open>The functions of \<^verbatim>\<open>src/index.ts\<close>\<close>

text \<open>\<^verbatim>\<open>const personSchema = z.object({ birthday: z.date() })\<close>\<close>

definition personSchema :: "'n schema" where
  "personSchema = zObject [(''birthday'', zDate)]"

text \<open>\<^verbatim>\<open>function isPerson(value: unknown): value is Person\<close>\<close>

definition isPerson :: "'n jsval \<Rightarrow> bool" where
  "isPerson v = safeParse_success personSchema v"

text \<open>
  \<^verbatim>\<open>function assertNonNullable<T>(value: T): asserts value is NonNullable<T>\<close>: returns
  nothing, or throws.
\<close>

definition assertNonNullable :: "'n jsval \<Rightarrow> exn + unit" where
  "assertNonNullable v =
     (if v = JUndefined \<or> v = JNull
      then Inl (JsError ''Error'' ''undefined or null are not allowed'')
      else Inr ())"

text \<open>
  \<^verbatim>\<open>declare function diffInYears(value: Date): number\<close> and
  \<^verbatim>\<open>declare function parse(value: string): Date\<close> are only declared: they are parameters of
  the model. Each receives the runtime value it is called with and the state \<open>'w\<close> of the
  world outside (the clock among it), may throw, and returns the world it leaves.
\<close>

record ('n, 'w) externals =
  parse :: "'n jsval \<Rightarrow> 'w \<Rightarrow> (exn + 'n jsval) \<times> 'w"
  diffInYears :: "'n jsval \<Rightarrow> 'w \<Rightarrow> (exn + 'n jsval) \<times> 'w"

text \<open>
  A run carries the world and the log of the calls made to the two external functions, each
  with its argument, in the order they were made.
\<close>

datatype 'n call = DateParser "'n jsval" | DateDiff "'n jsval"

record ('n, 'w) run =
  world :: 'w
  calls :: "'n call list"

type_synonym ('n, 'w, 'a) action = "('n, 'w) run \<Rightarrow> (exn + 'a) \<times> ('n, 'w) run"

definition callParse :: "('n, 'w) externals \<Rightarrow> 'n jsval \<Rightarrow> ('n, 'w, 'n jsval) action" where
  "callParse ext v s =
     (case parse ext v (world s) of
        (r, w) \<Rightarrow> (r, \<lparr>world = w, calls = calls s @ [DateParser v]\<rparr>))"

definition callDiffInYears :: "('n, 'w) externals \<Rightarrow> 'n jsval \<Rightarrow> ('n, 'w, 'n jsval) action" where
  "callDiffInYears ext v s =
     (case diffInYears ext v (world s) of
        (r, w) \<Rightarrow> (r, \<lparr>world = w, calls = calls s @ [DateDiff v]\<rparr>))"

text \<open>A pure step that may throw, and sequencing: a thrown error ends the run.\<close>

definition lift :: "exn + 'a \<Rightarrow> ('n, 'w, 'a) action" where
  "lift r s = (r, s)"

definition andThen :: "('n, 'w, 'a) action \<Rightarrow> ('a \<Rightarrow> ('n, 'w, 'b) action) \<Rightarrow> ('n, 'w, 'b) action" where
  "andThen m f s =
     (case m s of
        (Inl e, s1) \<Rightarrow> (Inl e, s1)
      | (Inr a, s1) \<Rightarrow> f a s1)"

text \<open>
  \<^verbatim>\<open>function calcAge(input: Date | null | undefined | string | Person | PersonJson): number\<close>,
  branch by branch.
\<close>

definition calcAge :: "('n, 'w) externals \<Rightarrow> 'n jsval \<Rightarrow> ('n, 'w, 'n jsval) action" where
  "calcAge ext input =
     andThen (lift (assertNonNullable input)) (\<lambda>_.
       if typeof input = ''string'' then
         andThen (callParse ext input) (callDiffInYears ext)
       else if instanceofDate input then
         callDiffInYears ext input
       else if isPerson input then
         andThen (lift (getProperty input ''birthday'')) (callDiffInYears ext)
       else
         andThen (lift (getProperty input ''birthday'')) (\<lambda>birthday.
           andThen (callParse ext birthday) (callDiffInYears ext)))"

text \<open>
  The declared parameter type of \<open>calcAge\<close>,
  \<^verbatim>\<open>Date | null | undefined | string | Person | PersonJson\<close>, as a predicate on runtime values:
  \<^verbatim>\<open>Person\<close> is \<^verbatim>\<open>{ birthday: Date }\<close> and \<^verbatim>\<open>PersonJson\<close> is \<^verbatim>\<open>{ birthday: string }\<close>.
\<close>

definition hasTypePerson :: "'n jsval \<Rightarrow> bool" where
  "hasTypePerson v =
     (case v of
        JObject ps \<Rightarrow> (case map_of ps ''birthday'' of Some (JDate t) \<Rightarrow> True | _ \<Rightarrow> False)
      | _ \<Rightarrow> False)"

definition hasTypePersonJson :: "'n jsval \<Rightarrow> bool" where
  "hasTypePersonJson v =
     (case v of
        JObject ps \<Rightarrow> (case map_of ps ''birthday'' of Some (JString txt) \<Rightarrow> True | _ \<Rightarrow> False)
      | _ \<Rightarrow> False)"

definition declaredInput :: "'n jsval \<Rightarrow> bool" where
  "declaredInput v =
     (instanceofDate v \<or> v = JNull \<or> v = JUndefined \<or> typeof v = ''string''
      \<or> hasTypePerson v \<or> hasTypePersonJson v)"

section \<open>A sample pair of external functions\<close>

text \<open>
  Modelled from the spec: DateParser and DateDiff are external and their implementation is
  not among the sources. To run \<open>calcAge\<close> on concrete inputs, this section gives one pair
  that fits the spec's description: a parser of the text \<^verbatim>\<open>YYYY-MM-DD\<close> into the instant of
  that day's start, which throws on any other argument, and the "elapsed whole years from
  the instant to the current moment", read off the proleptic Gregorian calendar. The world
  is the clock and a count of the texts parsed so far, so that the sample parser has an
  effect of its own. The theorems about \<open>calcAge\<close> hold for every pair; this one only runs
  them.
\<close>

record clock =
  now :: int
  parsed :: nat

definition msPerDay :: int where
  "msPerDay = 86400000"

text \<open>
  Modelled from the spec: the day number (days since 1970-01-01) of a calendar date, and
  back; no such code is among the sources.
\<close>

definition daysFromCivil :: "int \<Rightarrow> int \<Rightarrow> int \<Rightarrow> int" where
  "daysFromCivil y m d =
     (let y1 = (if m \<le> 2 then y - 1 else y);
          era = y1 div 400;
          yoe = y1 mod 400;
          mp = (m + 9) mod 12;
          doy = (153 * mp + 2) div 5 + d - 1;
          doe = yoe * 365 + yoe div 4 - yoe div 100 + doy
      in era * 146097 + doe - 719468)"

definition civilFromDays :: "int \<Rightarrow> int \<times> int \<times> int" where
  "civilFromDays z0 =
     (let z = z0 + 719468;
          era = z div 146097;
          doe = z mod 146097;
          yoe = (doe - doe div 1460 + doe div 36524 - doe div 146096) div 365;
          doy = doe - (365 * yoe + yoe div 4 - yoe div 100);
          mp = (5 * doy + 2) div 153;
          d = doy - (153 * mp + 2) div 5 + 1;
          m = (if mp < 10 then mp + 3 else mp - 9);
          y = yoe + era * 400
      in (if m \<le> 2 then y + 1 else y, m, d))"

text \<open>
  Modelled from the spec: "elapsed whole years" from the instant \<open>t\<close> to the instant \<open>n\<close>,
  both in milliseconds since the epoch: the difference of the calendar years, less one when
  the anniversary has not been reached in the later year.
\<close>

definition wholeYears :: "int \<Rightarrow> int \<Rightarrow> int" where
  "wholeYears t n =
     (case civilFromDays (t div msPerDay) of (y1, m1, d1) \<Rightarrow>
      case civilFromDays (n div msPerDay) of (y2, m2, d2) \<Rightarrow>
        y2 - y1 -
        (if m2 < m1 \<or> (m2 = m1 \<and> (d2 < d1 \<or> (d2 = d1 \<and> n mod msPerDay < t mod msPerDay)))
         then 1 else 0))"

text \<open>Modelled from the spec: reading the text \<^verbatim>\<open>YYYY-MM-DD\<close>, for the sample DateParser.\<close>

definition digitOf :: "char \<Rightarrow> int option" where
  "digitOf c =
     (let n = (of_char c :: nat) in if 48 \<le> n \<and> n \<le> 57 then Some (int n - 48) else None)"

fun numberOf :: "int \<Rightarrow> string \<Rightarrow> int option" where
  "numberOf acc [] = Some acc"
| "numberOf acc (c # cs) =
     (case digitOf c of None \<Rightarrow> None | Some d \<Rightarrow> numberOf (10 * acc + d) cs)"

definition isoDate :: "string \<Rightarrow> int option" where
  "isoDate s =
     (if length s = 10 \<and> s ! 4 = CHR ''-'' \<and> s ! 7 = CHR ''-'' then
        (case (numberOf 0 (take 4 s), numberOf 0 (take 2 (drop 5 s)), numberOf 0 (drop 8 s)) of
           (Some y, Some m, Some d) \<Rightarrow>
             if 1 \<le> m \<and> m \<le> 12 \<and> 1 \<le> d \<and> d \<le> 31
             then Some (daysFromCivil y m d * msPerDay) else None
         | _ \<Rightarrow> None)
      else None)"

text \<open>
  Modelled from the spec: a sample DateParser. It throws on what it cannot read, which is
  also every argument that is not a text.
\<close>

fun sampleParse :: "int jsval \<Rightarrow> clock \<Rightarrow> (exn + int jsval) \<times> clock" where
  "sampleParse (JString s) w =
     (case isoDate s of
        None \<Rightarrow> (Inl (JsError ''ParseError'' s), w)
      | Some t \<Rightarrow> (Inr (JDate (Some t)), w\<lparr>parsed := Suc (parsed w)\<rparr>))"
| "sampleParse v w = (Inl (JsError ''ParseError'' ''not a text''), w)"

text \<open>
  Modelled from the spec: a sample DateDiff, the whole years from the instant to the
  clock's \<open>now\<close>. It throws on an argument that denotes no instant.
\<close>

fun sampleDiffInYears :: "int jsval \<Rightarrow> clock \<Rightarrow> (exn + int jsval) \<times> clock" where
  "sampleDiffInYears (JDate (Some t)) w = (Inr (JNumber (wholeYears t (now w))), w)"
| "sampleDiffInYears v w = (Inl (JsError ''RangeError'' ''Invalid time value''), w)"

definition sampleExternals :: "(int, clock) externals" where
  "sampleExternals = \<lparr>parse = sampleParse, diffInYears = sampleDiffInYears\<rparr>"

text \<open>
  Modelled from the spec: a second sample DateParser, which reads the empty text as the
  epoch, 1970-01-01, and every other argument as the first one does. What DateParser does
  on the empty text is left open by the spec; the first sample throws on it, this one
  returns.
\<close>

fun lenientParse :: "int jsval \<Rightarrow> clock \<Rightarrow> (exn + int jsval) \<times> clock" where
  "lenientParse (JString s) w =
     (if s = [] then (Inr (JDate (Some 0)), w\<lparr>parsed := Suc (parsed w)\<rparr>)
      else sampleParse (JString s) w)"
| "lenientParse v w = sampleParse v w"

definition lenientExternals :: "(int, clock) externals" where
  "lenientExternals = \<lparr>parse = lenientParse, diffInYears = sampleDiffInYears\<rparr>"

text \<open>A run that starts at midnight of 2025-01-01, with nothing parsed and no call made.\<close>

definition newYear2025 :: "(int, clock) run" where
  "newYear2025 = \<lparr>world = \<lparr>now = daysFromCivil 2025 1 1 * msPerDay, parsed = 0\<rparr>, calls = []\<rparr>"

section \<open>How the schema and the branches unfold\<close>

lemma zDate_iff: "zDate v \<longleftrightarrow> (\<exists>t. v = JDate (Some t))"
  by (cases v rule: zDate.cases) simp_all

lemma isPerson_JObject:
  "isPerson (JObject ps) = zDate (case map_of ps ''birthday'' of None \<Rightarrow> JUndefined | Some v \<Rightarrow> v)"
  by (simp add: isPerson_def safeParse_success_def personSchema_def)

lemma isPerson_not_object:
  "(\<And>ps. v \<noteq> JObject ps) \<Longrightarrow> \<not> isPerson v"
  by (cases v) (auto simp add: isPerson_def safeParse_success_def personSchema_def)

lemma calcAge_guard_throws:
  "input = JUndefined \<or> input = JNull \<Longrightarrow>
   calcAge ext input = lift (Inl (JsError ''Error'' ''undefined or null are not allowed''))"
  by (rule ext) (auto simp add: calcAge_def assertNonNullable_def andThen_def lift_def)

lemma calcAge_string:
  "calcAge ext (JString str) = andThen (callParse ext (JString str)) (callDiffInYears ext)"
  by (rule ext) (simp add: calcAge_def assertNonNullable_def andThen_def lift_def)

lemma calcAge_JDate:
  "calcAge ext (JDate t) = callDiffInYears ext (JDate t)"
  by (rule ext) (simp add: calcAge_def assertNonNullable_def andThen_def lift_def)

lemma calcAge_JObject:
  "calcAge ext (JObject ps) =
     (let b = (case map_of ps ''birthday'' of None \<Rightarrow> JUndefined | Some v \<Rightarrow> v)
      in if zDate b then callDiffInYears ext b
         else andThen (callParse ext b) (callDiffInYears ext))"
  by (rule ext)
    (simp add: calcAge_def assertNonNullable_def andThen_def lift_def isPerson_JObject Let_def)

lemma calcAge_fallthrough:
  "assertNonNullable input = Inr () \<Longrightarrow> typeof input \<noteq> ''string'' \<Longrightarrow>
   \<not> instanceofDate input \<Longrightarrow> getProperty input ''birthday'' = Inr b \<Longrightarrow>
   calcAge ext input =
     (if isPerson input then callDiffInYears ext b
      else andThen (callParse ext b) (callDiffInYears ext))"
  by (rule ext) (simp add: calcAge_def andThen_def lift_def)

text \<open>Whatever the input, a run of \<open>calcAge\<close> is one of three: the guard throws, DateDiff is
  called on some value, or DateParser is called on some value and DateDiff on what it returns.\<close>

lemma calcAge_shape:
  "calcAge ext input = lift (Inl (JsError ''Error'' ''undefined or null are not allowed''))
   \<or> (\<exists>b. calcAge ext input = callDiffInYears ext b)
   \<or> (\<exists>b. calcAge ext input = andThen (callParse ext b) (callDiffInYears ext))"
proof (cases input)
  case (JObject ps)
  then show ?thesis by (simp add: calcAge_JObject Let_def) blast
next
  case (JString str)
  then show ?thesis by (simp add: calcAge_string) blast
next
  case (JDate t)
  then show ?thesis by (simp add: calcAge_JDate) blast
next
  case JUndefined
  then show ?thesis by (simp add: calcAge_guard_throws)
next
  case JNull
  then show ?thesis by (simp add: calcAge_guard_throws)
next
  case (JBoolean b)
  then show ?thesis
    using calcAge_fallthrough [of input JUndefined ext]
    by (simp add: assertNonNullable_def isPerson_not_object) blast
next
  case (JNumber n)
  then show ?thesis
    using calcAge_fallthrough [of input JUndefined ext]
    by (simp add: assertNonNullable_def isPerson_not_object) blast
next
  case (JArray xs)
  then show ?thesis
    using calcAge_fallthrough [of input JUndefined ext]
    by (simp add: assertNonNullable_def isPerson_not_object) blast
qed

subsection \<open>The two ways of calling out\<close>

lemma calls_callDiffInYears:
  "calls (snd (callDiffInYears ext v s)) = calls s @ [DateDiff v]"
  by (simp add: callDiffInYears_def split: prod.splits)

lemma fst_callDiffInYears:
  "fst (callDiffInYears ext v s) = fst (diffInYears ext v (world s))"
  by (simp add: callDiffInYears_def split: prod.splits)

lemma world_callDiffInYears:
  "world (snd (callDiffInYears ext v s)) = snd (diffInYears ext v (world s))"
  by (simp add: callDiffInYears_def split: prod.splits)

lemma parse_then_diff_ok:
  "parse ext v (world s) = (Inr d, w) \<Longrightarrow>
   andThen (callParse ext v) (callDiffInYears ext) s =
     (fst (diffInYears ext d w),
      \<lparr>world = snd (diffInYears ext d w), calls = calls s @ [DateParser v, DateDiff d]\<rparr>)"
  by (simp add: andThen_def callParse_def callDiffInYears_def split: prod.splits)

lemma parse_then_diff_throws:
  "parse ext v (world s) = (Inl e, w) \<Longrightarrow>
   andThen (callParse ext v) (callDiffInYears ext) s =
     (Inl e, \<lparr>world = w, calls = calls s @ [DateParser v]\<rparr>)"
  by (simp add: andThen_def callParse_def)

lemma parse_then_diff_calls:
  "calls (snd (andThen (callParse ext b) (callDiffInYears ext) s)) =
     (case parse ext b (world s) of
        (Inl e, w) \<Rightarrow> calls s @ [DateParser b]
      | (Inr d, w) \<Rightarrow> calls s @ [DateParser b, DateDiff d])"
  by (simp add: andThen_def callParse_def callDiffInYears_def split: prod.splits sum.splits)

lemma parse_then_diff_first_call:
  "\<exists>rest. calls (snd (andThen (callParse ext b) (callDiffInYears ext) s))
     = calls s @ DateParser b # rest"
proof (cases "parse ext b (world s)")
  case (Pair r w)
  then show ?thesis
    by (cases r) (simp_all add: parse_then_diff_calls)
qed

lemma fst_parse_then_diff:
  "fst (andThen (callParse ext b) (callDiffInYears ext) s) =
     (case fst (parse ext b (world s)) of
        Inl e \<Rightarrow> Inl e
      | Inr d \<Rightarrow> fst (diffInYears ext d (snd (parse ext b (world s)))))"
  by (simp add: andThen_def callParse_def callDiffInYears_def split: prod.splits sum.splits)

lemma world_parse_then_diff:
  "world (snd (andThen (callParse ext b) (callDiffInYears ext) s)) =
     (case fst (parse ext b (world s)) of
        Inl e \<Rightarrow> snd (parse ext b (world s))
      | Inr d \<Rightarrow> snd (diffInYears ext d (snd (parse ext b (world s)))))"
  by (simp add: andThen_def callParse_def callDiffInYears_def split: prod.splits sum.splits)

lemma new_calls_parse_then_diff:
  "drop (length (calls s)) (calls (snd (andThen (callParse ext b) (callDiffInYears ext) s))) =
     (case fst (parse ext b (world s)) of
        Inl e \<Rightarrow> [DateParser b]
      | Inr d \<Rightarrow> [DateParser b, DateDiff d])"
  by (simp add: andThen_def callParse_def callDiffInYears_def split: prod.splits sum.splits)

subsection \<open>The sample externals\<close>

lemma sampleParse_result:
  "now w1 = now w2 \<Longrightarrow> fst (sampleParse v w1) = fst (sampleParse v w2)"
  by (cases v) (simp_all split: option.splits)

lemma sampleParse_now: "now (snd (sampleParse v w)) = now w"
  by (cases v) (simp_all split: option.splits)

lemma sampleDiffInYears_result:
  "now w1 = now w2 \<Longrightarrow> fst (sampleDiffInYears v w1) = fst (sampleDiffInYears v w2)"
  by (cases v rule: zDate.cases) simp_all

lemma sampleDiffInYears_world: "snd (sampleDiffInYears v w) = w"
  by (cases v rule: zDate.cases) simp_all

section \<open>The absence guard\<close>

text \<open>
  Claim C1. On \<open>undefined\<close> and on \<open>null\<close>, \<open>calcAge\<close> throws the guard's error, an \<open>Error\<close>
  with the message "undefined or null are not allowed". The run it leaves is the run it
  started from: no call to DateParser or DateDiff was logged and the world is untouched,
  whatever the two external functions are.
\<close>

theorem calcAge_absent:
  "calcAge ext JUndefined s = (Inl (JsError ''Error'' ''undefined or null are not allowed''), s)
   \<and> calcAge ext JNull s = (Inl (JsError ''Error'' ''undefined or null are not allowed''), s)"
  by (simp add: calcAge_guard_throws lift_def)

theorem calcAge_absent_witness:
  "calcAge sampleExternals JUndefined newYear2025
     = (Inl (JsError ''Error'' ''undefined or null are not allowed''), newYear2025)
   \<and> calcAge sampleExternals JNull newYear2025
     = (Inl (JsError ''Error'' ''undefined or null are not allowed''), newYear2025)
   \<and> calls newYear2025 = []"
  using calcAge_absent [of sampleExternals newYear2025]
  by (simp add: newYear2025_def)

section \<open>The shape predicate\<close>

text \<open>
  Claim C2. \<open>isPerson\<close> is a total boolean classifier: it holds of a value exactly when the
  value is an object whose \<open>birthday\<close> property is a \<open>Date\<close> denoting an instant. On every
  other value (another kind of value, no \<open>birthday\<close>, a \<open>birthday\<close> that is a text, a number,
  or a \<open>Date\<close> whose time value is \<open>NaN\<close>) it is false.
\<close>

theorem isPerson_iff:
  "isPerson v \<longleftrightarrow> (\<exists>ps t. v = JObject ps \<and> map_of ps ''birthday'' = Some (JDate (Some t)))"
proof (cases v)
  case (JObject ps)
  then show ?thesis
    by (auto simp add: isPerson_JObject zDate_iff split: option.splits)
qed (simp_all add: isPerson_not_object)

theorem isPerson_iff_witness:
  "isPerson (JObject [(''name'', JString ''Ada''), (''birthday'', JDate (Some 946684800000))] :: int jsval)
   \<and> \<not> isPerson (JObject [(''birthday'', JString ''2000-01-01'')] :: int jsval)
   \<and> \<not> isPerson (JObject [(''name'', JString ''Ada'')] :: int jsval)
   \<and> \<not> isPerson (JDate (Some 946684800000) :: int jsval)
   \<and> \<not> isPerson (JString ''2000-01-01'' :: int jsval)
   \<and> \<not> isPerson (JNull :: int jsval)"
  using isPerson_iff [of "JObject [(''name'', JString ''Ada''), (''birthday'', JDate (Some 946684800000))] :: int jsval"]
    isPerson_iff [of "JObject [(''birthday'', JString ''2000-01-01'')] :: int jsval"]
    isPerson_iff [of "JObject [(''name'', JString ''Ada'')] :: int jsval"]
    isPerson_iff [of "JDate (Some 946684800000) :: int jsval"]
    isPerson_iff [of "JString ''2000-01-01'' :: int jsval"]
    isPerson_iff [of "JNull :: int jsval"]
  by simp

section \<open>The branches of \<open>calcAge\<close>\<close>

text \<open>
  Claim C3. On an object whose \<open>birthday\<close> is a text, \<open>isPerson\<close> is false and \<open>calcAge\<close> runs
  its last branch: it calls DateParser on that text and DateDiff on what the parser returns,
  which is the run \<open>calcAge\<close> makes on the text itself. When the parser returns, the log
  holds these two calls in this order and the result is DateDiff's; when it returns a
  \<open>Date\<close>, that is also the result of \<open>calcAge\<close> on that \<open>Date\<close>, and on an object holding it as
  \<open>birthday\<close> if it denotes an instant, in the world the parser left.
\<close>

theorem calcAge_json_record:
  "map_of ps ''birthday'' = Some (JString txt) \<Longrightarrow>
     \<not> isPerson (JObject ps)
     \<and> calcAge ext (JObject ps) s = andThen (callParse ext (JString txt)) (callDiffInYears ext) s
     \<and> calcAge ext (JObject ps) s = calcAge ext (JString txt) s
     \<and> (\<forall>d w. parse ext (JString txt) (world s) = (Inr d, w) \<longrightarrow>
          calls (snd (calcAge ext (JObject ps) s)) = calls s @ [DateParser (JString txt), DateDiff d]
          \<and> fst (calcAge ext (JObject ps) s) = fst (diffInYears ext d w)
          \<and> (instanceofDate d \<longrightarrow>
               fst (calcAge ext (JObject ps) s) = fst (calcAge ext d (s\<lparr>world := w\<rparr>))
               \<and> (zDate d \<longrightarrow> fst (calcAge ext (JObject ps) s)
                    = fst (calcAge ext (JObject [(''birthday'', d)]) (s\<lparr>world := w\<rparr>)))))"
  by (auto simp add: isPerson_JObject calcAge_JObject calcAge_string calcAge_JDate
      parse_then_diff_ok fst_callDiffInYears elim!: instanceofDate.elims)

theorem calcAge_json_record_witness:
  "map_of [(''birthday'', JString ''2000-01-01'')] ''birthday'' = Some (JString ''2000-01-01'' :: int jsval)
   \<and> \<not> isPerson (JObject [(''birthday'', JString ''2000-01-01'')] :: int jsval)
   \<and> parse sampleExternals (JString ''2000-01-01'') (world newYear2025)
       = (Inr (JDate (Some 946684800000)), \<lparr>now = 1735689600000, parsed = 1\<rparr>)
   \<and> calls (snd (calcAge sampleExternals (JObject [(''birthday'', JString ''2000-01-01'')]) newYear2025))
       = [DateParser (JString ''2000-01-01''), DateDiff (JDate (Some 946684800000))]
   \<and> fst (calcAge sampleExternals (JObject [(''birthday'', JString ''2000-01-01'')]) newYear2025)
       = Inr (JNumber 25)"
proof -
  have h: "map_of [(''birthday'', JString ''2000-01-01'')] ''birthday''
      = Some (JString ''2000-01-01'' :: int jsval)"
    by simp
  have p: "parse sampleExternals (JString ''2000-01-01'') (world newYear2025)
      = (Inr (JDate (Some 946684800000)), \<lparr>now = 1735689600000, parsed = 1\<rparr>)"
    by code_simp
  have d: "fst (diffInYears sampleExternals (JDate (Some 946684800000))
      \<lparr>now = 1735689600000, parsed = 1\<rparr>) = Inr (JNumber 25)"
    by code_simp
  have c: "calls newYear2025 = []"
    by (simp add: newYear2025_def)
  from calcAge_json_record [OF h, of sampleExternals newYear2025] p
  have "\<not> isPerson (JObject [(''birthday'', JString ''2000-01-01'')] :: int jsval)"
    and "calls (snd (calcAge sampleExternals (JObject [(''birthday'', JString ''2000-01-01'')]) newYear2025))
       = calls newYear2025 @ [DateParser (JString ''2000-01-01''), DateDiff (JDate (Some 946684800000))]"
    and "fst (calcAge sampleExternals (JObject [(''birthday'', JString ''2000-01-01'')]) newYear2025)
       = fst (diffInYears sampleExternals (JDate (Some 946684800000)) \<lparr>now = 1735689600000, parsed = 1\<rparr>)"
    by blast+
  with h p d c show ?thesis by simp
qed

text \<open>
  Claim C4. On a text, \<open>calcAge\<close> is \<^verbatim>\<open>diffInYears(parse(input))\<close>: DateParser is called on
  the input; when it returns, DateDiff is called on what it returned, the log has grown by
  exactly these two calls in this order and the result is DateDiff's; when it throws, the
  log has grown by the one call. With the sample externals and the clock at 2025-01-01, the
  text \<^verbatim>\<open>2000-01-01\<close> gives 25.
\<close>

theorem calcAge_text:
  "calcAge ext (JString txt) s = andThen (callParse ext (JString txt)) (callDiffInYears ext) s
   \<and> (\<forall>d w. parse ext (JString txt) (world s) = (Inr d, w) \<longrightarrow>
        calcAge ext (JString txt) s =
          (fst (diffInYears ext d w),
           \<lparr>world = snd (diffInYears ext d w),
            calls = calls s @ [DateParser (JString txt), DateDiff d]\<rparr>))
   \<and> (\<forall>e w. parse ext (JString txt) (world s) = (Inl e, w) \<longrightarrow>
        calcAge ext (JString txt) s =
          (Inl e, \<lparr>world = w, calls = calls s @ [DateParser (JString txt)]\<rparr>))
   \<and> calcAge sampleExternals (JString ''2000-01-01'') newYear2025 =
       (Inr (JNumber 25),
        \<lparr>world = \<lparr>now = 1735689600000, parsed = 1\<rparr>,
         calls = [DateParser (JString ''2000-01-01''), DateDiff (JDate (Some 946684800000))]\<rparr>)"
proof (intro conjI allI impI)
  show "calcAge ext (JString txt) s = andThen (callParse ext (JString txt)) (callDiffInYears ext) s"
    by (simp add: calcAge_string)
next
  fix d w
  assume "parse ext (JString txt) (world s) = (Inr d, w)"
  then show "calcAge ext (JString txt) s =
          (fst (diffInYears ext d w),
           \<lparr>world = snd (diffInYears ext d w),
            calls = calls s @ [DateParser (JString txt), DateDiff d]\<rparr>)"
    by (simp add: calcAge_string parse_then_diff_ok)
next
  fix e w
  assume "parse ext (JString txt) (world s) = (Inl e, w)"
  then show "calcAge ext (JString txt) s =
          (Inl e, \<lparr>world = w, calls = calls s @ [DateParser (JString txt)]\<rparr>)"
    by (simp add: calcAge_string parse_then_diff_throws)
next
  show "calcAge sampleExternals (JString ''2000-01-01'') newYear2025 =
       (Inr (JNumber 25),
        \<lparr>world = \<lparr>now = 1735689600000, parsed = 1\<rparr>,
         calls = [DateParser (JString ''2000-01-01''), DateDiff (JDate (Some 946684800000))]\<rparr>)"
    by code_simp
qed

theorem calcAge_text_witness:
  "parse sampleExternals (JString ''1999-12-31'') (world newYear2025)
     = (Inr (JDate (Some 946598400000)), \<lparr>now = 1735689600000, parsed = 1\<rparr>)
   \<and> calcAge sampleExternals (JString ''1999-12-31'') newYear2025
     = (Inr (JNumber 25),
        \<lparr>world = \<lparr>now = 1735689600000, parsed = 1\<rparr>,
         calls = [DateParser (JString ''1999-12-31''), DateDiff (JDate (Some 946598400000))]\<rparr>)
   \<and> parse sampleExternals (JString ''today'') (world newYear2025)
     = (Inl (JsError ''ParseError'' ''today''), \<lparr>now = 1735689600000, parsed = 0\<rparr>)
   \<and> calcAge sampleExternals (JString ''today'') newYear2025
     = (Inl (JsError ''ParseError'' ''today''),
        \<lparr>world = \<lparr>now = 1735689600000, parsed = 0\<rparr>, calls = [DateParser (JString ''today'')]\<rparr>)"
proof -
  have p: "parse sampleExternals (JString ''1999-12-31'') (world newYear2025)
      = (Inr (JDate (Some 946598400000)), \<lparr>now = 1735689600000, parsed = 1\<rparr>)"
    by code_simp
  have d: "diffInYears sampleExternals (JDate (Some 946598400000)) \<lparr>now = 1735689600000, parsed = 1\<rparr>
      = (Inr (JNumber 25), \<lparr>now = 1735689600000, parsed = 1\<rparr>)"
    by code_simp
  have q: "parse sampleExternals (JString ''today'') (world newYear2025)
      = (Inl (JsError ''ParseError'' ''today''), \<lparr>now = 1735689600000, parsed = 0\<rparr>)"
    by code_simp
  have c: "calls newYear2025 = []"
    by (simp add: newYear2025_def)
  from calcAge_text [of sampleExternals "''1999-12-31''" newYear2025] p
  have "calcAge sampleExternals (JString ''1999-12-31'') newYear2025 =
      (fst (diffInYears sampleExternals (JDate (Some 946598400000)) \<lparr>now = 1735689600000, parsed = 1\<rparr>),
       \<lparr>world = snd (diffInYears sampleExternals (JDate (Some 946598400000))
           \<lparr>now = 1735689600000, parsed = 1\<rparr>),
        calls = calls newYear2025 @ [DateParser (JString ''1999-12-31''), DateDiff (JDate (Some 946598400000))]\<rparr>)"
    by blast
  moreover from calcAge_text [of sampleExternals "''today''" newYear2025] q
  have "calcAge sampleExternals (JString ''today'') newYear2025 =
      (Inl (JsError ''ParseError'' ''today''),
       \<lparr>world = \<lparr>now = 1735689600000, parsed = 0\<rparr>,
        calls = calls newYear2025 @ [DateParser (JString ''today'')]\<rparr>)"
    by blast
  ultimately show ?thesis
    using p q d c by simp
qed

text \<open>
  Claim C5. On a \<open>Date\<close>, \<open>calcAge\<close> is the one call of DateDiff on the input: the log grows
  by that call alone, so DateParser is not called, and the result is DateDiff's. It is the
  result \<open>calcAge\<close> gives on any text that the parser turns into this \<open>Date\<close>, the \<open>Date\<close> being
  handled in the world the parser left (the same world when the parser has no effect).
\<close>

theorem calcAge_date:
  "calcAge ext (JDate t) s = callDiffInYears ext (JDate t) s
   \<and> calls (snd (calcAge ext (JDate t) s)) = calls s @ [DateDiff (JDate t)]
   \<and> fst (calcAge ext (JDate t) s) = fst (diffInYears ext (JDate t) (world s))
   \<and> (\<forall>txt w0 cs. parse ext (JString txt) w0 = (Inr (JDate t), world s) \<longrightarrow>
        fst (calcAge ext (JString txt) \<lparr>world = w0, calls = cs\<rparr>) = fst (calcAge ext (JDate t) s))"
  by (simp add: calcAge_JDate calcAge_string calls_callDiffInYears fst_callDiffInYears
      parse_then_diff_ok)

theorem calcAge_date_witness:
  "parse sampleExternals (JString ''2000-01-01'') \<lparr>now = 1735689600000, parsed = 0\<rparr>
     = (Inr (JDate (Some 946684800000)), \<lparr>now = 1735689600000, parsed = 1\<rparr>)
   \<and> fst (calcAge sampleExternals (JDate (Some 946684800000))
        \<lparr>world = \<lparr>now = 1735689600000, parsed = 1\<rparr>, calls = []\<rparr>) = Inr (JNumber 25)
   \<and> fst (calcAge sampleExternals (JString ''2000-01-01'')
        \<lparr>world = \<lparr>now = 1735689600000, parsed = 0\<rparr>, calls = []\<rparr>) = Inr (JNumber 25)
   \<and> calls (snd (calcAge sampleExternals (JDate (Some 946684800000))
        \<lparr>world = \<lparr>now = 1735689600000, parsed = 1\<rparr>, calls = []\<rparr>))
     = [DateDiff (JDate (Some 946684800000))]"
proof -
  have p: "parse sampleExternals (JString ''2000-01-01'') \<lparr>now = 1735689600000, parsed = 0\<rparr>
      = (Inr (JDate (Some 946684800000)),
         world \<lparr>world = \<lparr>now = 1735689600000, parsed = 1\<rparr>, calls = ([] :: int call list)\<rparr>)"
    by code_simp
  have d: "fst (diffInYears sampleExternals (JDate (Some 946684800000))
      \<lparr>now = 1735689600000, parsed = 1\<rparr>) = Inr (JNumber 25)"
    by code_simp
  from calcAge_date [of sampleExternals "Some 946684800000"
      "\<lparr>world = \<lparr>now = 1735689600000, parsed = 1\<rparr>, calls = []\<rparr>"] p
  have "fst (calcAge sampleExternals (JDate (Some 946684800000))
          \<lparr>world = \<lparr>now = 1735689600000, parsed = 1\<rparr>, calls = []\<rparr>)
        = fst (diffInYears sampleExternals (JDate (Some 946684800000))
            (world \<lparr>world = \<lparr>now = 1735689600000, parsed = 1\<rparr>, calls = ([] :: int call list)\<rparr>))"
    and "fst (calcAge sampleExternals (JString ''2000-01-01'')
          \<lparr>world = \<lparr>now = 1735689600000, parsed = 0\<rparr>, calls = []\<rparr>)
        = fst (calcAge sampleExternals (JDate (Some 946684800000))
          \<lparr>world = \<lparr>now = 1735689600000, parsed = 1\<rparr>, calls = []\<rparr>)"
    and "calls (snd (calcAge sampleExternals (JDate (Some 946684800000))
          \<lparr>world = \<lparr>now = 1735689600000, parsed = 1\<rparr>, calls = []\<rparr>))
        = calls \<lparr>world = \<lparr>now = 1735689600000, parsed = 1\<rparr>, calls = ([] :: int call list)\<rparr>
          @ [DateDiff (JDate (Some 946684800000))]"
    by blast+
  with p d show ?thesis by simp
qed

text \<open>
  Claim C6. On an object whose \<open>birthday\<close> is a \<open>Date\<close> denoting an instant, \<open>isPerson\<close> is
  true and \<open>calcAge\<close> is the one call of DateDiff on that \<open>birthday\<close>: the very run that
  \<open>calcAge\<close> makes on the \<open>Date\<close> itself.
\<close>

theorem calcAge_person_record:
  "map_of ps ''birthday'' = Some (JDate (Some t)) \<Longrightarrow>
     isPerson (JObject ps)
     \<and> calcAge ext (JObject ps) s = callDiffInYears ext (JDate (Some t)) s
     \<and> calcAge ext (JObject ps) s = calcAge ext (JDate (Some t)) s"
  by (simp add: isPerson_JObject calcAge_JObject calcAge_JDate)

theorem calcAge_person_record_witness:
  "map_of [(''birthday'', JDate (Some 946684800000))] ''birthday''
     = Some (JDate (Some 946684800000) :: int jsval)
   \<and> isPerson (JObject [(''birthday'', JDate (Some 946684800000))] :: int jsval)
   \<and> calcAge sampleExternals (JObject [(''birthday'', JDate (Some 946684800000))]) newYear2025
     = (Inr (JNumber 25),
        \<lparr>world = \<lparr>now = 1735689600000, parsed = 0\<rparr>,
         calls = [DateDiff (JDate (Some 946684800000))]\<rparr>)"
proof -
  have h: "map_of [(''birthday'', JDate (Some 946684800000))] ''birthday''
      = Some (JDate (Some 946684800000) :: int jsval)"
    by simp
  have d: "callDiffInYears sampleExternals (JDate (Some 946684800000)) newYear2025
      = (Inr (JNumber 25),
        \<lparr>world = \<lparr>now = 1735689600000, parsed = 0\<rparr>,
         calls = [DateDiff (JDate (Some 946684800000))]\<rparr>)"
    by code_simp
  from calcAge_person_record [OF h, of sampleExternals newYear2025] h d
  show ?thesis by simp
qed

section \<open>Failures of the parser\<close>

text \<open>
  Claim C7. Whatever the input, if the run of \<open>calcAge\<close> called DateParser on a value and
  DateParser throws on that value in the world \<open>calcAge\<close> was started in, then \<open>calcAge\<close> throws
  the same error, unchanged, and stops there: the world is the one the parser left, and
  the call to the parser is the only one logged. No branch catches or replaces the error.
\<close>

theorem calcAge_parse_error:
  "parse ext v (world s) = (Inl e, w) \<Longrightarrow>
   DateParser v \<in> set (drop (length (calls s)) (calls (snd (calcAge ext input s)))) \<Longrightarrow>
   calcAge ext input s = (Inl e, \<lparr>world = w, calls = calls s @ [DateParser v]\<rparr>)"
proof -
  assume p: "parse ext v (world s) = (Inl e, w)"
    and c: "DateParser v \<in> set (drop (length (calls s)) (calls (snd (calcAge ext input s))))"
  consider
      (absent) "calcAge ext input = lift (Inl (JsError ''Error'' ''undefined or null are not allowed''))"
    | (diff) b where "calcAge ext input = callDiffInYears ext b"
    | (parse) b where "calcAge ext input = andThen (callParse ext b) (callDiffInYears ext)"
    using calcAge_shape [of ext input] by blast
  then show ?thesis
  proof cases
    case absent
    with c show ?thesis by (simp add: lift_def)
  next
    case (diff b)
    with c show ?thesis by (simp add: calls_callDiffInYears)
  next
    case (parse b)
    obtain r w1 where pb: "parse ext b (world s) = (r, w1)"
      by (cases "parse ext b (world s)")
    have "v = b"
    proof (cases r)
      case (Inl e1)
      with c parse pb show ?thesis by (simp add: parse_then_diff_calls)
    next
      case (Inr d)
      with c parse pb show ?thesis by (simp add: parse_then_diff_calls)
    qed
    with p parse show ?thesis
      by (simp add: parse_then_diff_throws)
  qed
qed

theorem calcAge_parse_error_witness:
  "parse sampleExternals (JString ''soon'') (world newYear2025)
     = (Inl (JsError ''ParseError'' ''soon''), \<lparr>now = 1735689600000, parsed = 0\<rparr>)
   \<and> DateParser (JString ''soon'')
       \<in> set (drop (length (calls newYear2025))
            (calls (snd (calcAge sampleExternals (JObject [(''birthday'', JString ''soon'')]) newYear2025))))
   \<and> calcAge sampleExternals (JObject [(''birthday'', JString ''soon'')]) newYear2025
     = (Inl (JsError ''ParseError'' ''soon''),
        \<lparr>world = \<lparr>now = 1735689600000, parsed = 0\<rparr>, calls = [DateParser (JString ''soon'')]\<rparr>)"
proof -
  have p: "parse sampleExternals (JString ''soon'') (world newYear2025)
      = (Inl (JsError ''ParseError'' ''soon''), \<lparr>now = 1735689600000, parsed = 0\<rparr>)"
    by code_simp
  have c: "DateParser (JString ''soon'')
       \<in> set (drop (length (calls newYear2025))
            (calls (snd (calcAge sampleExternals (JObject [(''birthday'', JString ''soon'')]) newYear2025))))"
    by code_simp
  have n: "calls newYear2025 = []"
    by (simp add: newYear2025_def)
  from calcAge_parse_error [OF p c] p c n show ?thesis
    by simp
qed

section \<open>Determinism\<close>

text \<open>
  Claim C8. \<open>calcAge\<close> has no state of its own: it reads and changes the world only through
  the two external functions. Let \<open>ref\<close> be the current-time reference of a world, let what
  DateParser and DateDiff return depend on the world only through it, and let neither of
  them change it. Then two runs of \<open>calcAge\<close> on the same input, started in worlds with the
  same reference, give the same result and make the same calls; a run leaves the reference
  as it was; and running \<open>calcAge\<close> a second time, after the first, gives the same result.
  \<open>isPerson\<close> and \<open>assertNonNullable\<close> are functions of their argument alone.
\<close>

theorem calcAge_deterministic:
  assumes P: "\<forall>v w1 w2. ref w1 = ref w2 \<longrightarrow> fst (parse ext v w1) = fst (parse ext v w2)"
    and D: "\<forall>v w1 w2. ref w1 = ref w2 \<longrightarrow> fst (diffInYears ext v w1) = fst (diffInYears ext v w2)"
    and P': "\<forall>v w. ref (snd (parse ext v w)) = ref w"
    and D': "\<forall>v w. ref (snd (diffInYears ext v w)) = ref w"
  shows "(\<forall>s1 s2. ref (world s1) = ref (world s2) \<longrightarrow>
            fst (calcAge ext input s1) = fst (calcAge ext input s2)
            \<and> drop (length (calls s1)) (calls (snd (calcAge ext input s1)))
              = drop (length (calls s2)) (calls (snd (calcAge ext input s2))))
       \<and> (\<forall>s. ref (world (snd (calcAge ext input s))) = ref (world s))
       \<and> (\<forall>s. fst (calcAge ext input (snd (calcAge ext input s))) = fst (calcAge ext input s))"
proof -
  have same: "fst (calcAge ext input s1) = fst (calcAge ext input s2)
            \<and> drop (length (calls s1)) (calls (snd (calcAge ext input s1)))
              = drop (length (calls s2)) (calls (snd (calcAge ext input s2)))"
    if r: "ref (world s1) = ref (world s2)" for s1 s2
  proof -
    consider
        (absent) "calcAge ext input = lift (Inl (JsError ''Error'' ''undefined or null are not allowed''))"
      | (diff) b where "calcAge ext input = callDiffInYears ext b"
      | (parse) b where "calcAge ext input = andThen (callParse ext b) (callDiffInYears ext)"
      using calcAge_shape [of ext input] by blast
    then show ?thesis
    proof cases
      case absent
      then show ?thesis by (simp add: lift_def)
    next
      case (diff b)
      from D r have "fst (diffInYears ext b (world s1)) = fst (diffInYears ext b (world s2))"
        by blast
      then show ?thesis
        unfolding diff by (simp add: fst_callDiffInYears calls_callDiffInYears)
    next
      case (parse b)
      from P r have p: "fst (parse ext b (world s1)) = fst (parse ext b (world s2))"
        by blast
      from P' r have "ref (snd (parse ext b (world s1))) = ref (snd (parse ext b (world s2)))"
        by simp
      with D have d: "fst (diffInYears ext d (snd (parse ext b (world s1))))
          = fst (diffInYears ext d (snd (parse ext b (world s2))))" for d
        by blast
      show ?thesis
        unfolding parse fst_parse_then_diff new_calls_parse_then_diff p
        by (cases "fst (parse ext b (world s2))") (simp_all add: d)
    qed
  qed
  have keep: "ref (world (snd (calcAge ext input s))) = ref (world s)" for s
  proof -
    consider
        (absent) "calcAge ext input = lift (Inl (JsError ''Error'' ''undefined or null are not allowed''))"
      | (diff) b where "calcAge ext input = callDiffInYears ext b"
      | (parse) b where "calcAge ext input = andThen (callParse ext b) (callDiffInYears ext)"
      using calcAge_shape [of ext input] by blast
    then show ?thesis
    proof cases
      case absent
      then show ?thesis by (simp add: lift_def)
    next
      case (diff b)
      with D' show ?thesis by (simp add: world_callDiffInYears)
    next
      case (parse b)
      show ?thesis
      proof (cases "fst (parse ext b (world s))")
        case (Inl e)
        with P' show ?thesis
          unfolding parse by (simp add: world_parse_then_diff)
      next
        case (Inr d)
        with P' D' show ?thesis
          unfolding parse by (simp add: world_parse_then_diff)
      qed
    qed
  qed
  have "fst (calcAge ext input (snd (calcAge ext input s))) = fst (calcAge ext input s)" for s
    using same [of "snd (calcAge ext input s)" s] keep [of s] by blast
  with same keep show ?thesis by blast
qed

theorem calcAge_deterministic_witness:
  "(\<forall>v w. now (snd (parse sampleExternals v w)) = now w)
   \<and> (\<forall>v w. now (snd (diffInYears sampleExternals v w)) = now w)
   \<and> fst (calcAge sampleExternals (JString ''2000-01-01'') newYear2025) = Inr (JNumber 25)
   \<and> parsed (world (snd (calcAge sampleExternals (JString ''2000-01-01'') newYear2025))) = 1
   \<and> fst (calcAge sampleExternals (JString ''2000-01-01'')
        (snd (calcAge sampleExternals (JString ''2000-01-01'') newYear2025))) = Inr (JNumber 25)"
proof -
  have P: "\<forall>v w1 w2. now w1 = now w2 \<longrightarrow>
      fst (parse sampleExternals v w1) = fst (parse sampleExternals v w2)"
    by (intro allI impI, simp only: sampleExternals_def externals.simps, erule sampleParse_result)
  have D: "\<forall>v w1 w2. now w1 = now w2 \<longrightarrow>
      fst (diffInYears sampleExternals v w1) = fst (diffInYears sampleExternals v w2)"
    by (intro allI impI, simp only: sampleExternals_def externals.simps, erule sampleDiffInYears_result)
  have P': "\<forall>v w. now (snd (parse sampleExternals v w)) = now w"
    by (simp add: sampleExternals_def sampleParse_now)
  have D': "\<forall>v w. now (snd (diffInYears sampleExternals v w)) = now w"
    by (simp add: sampleExternals_def sampleDiffInYears_world)
  have first: "fst (calcAge sampleExternals (JString ''2000-01-01'') newYear2025) = Inr (JNumber 25)"
    by code_simp
  have count: "parsed (world (snd (calcAge sampleExternals (JString ''2000-01-01'') newYear2025))) = 1"
    by code_simp
  from calcAge_deterministic [of now sampleExternals "JString ''2000-01-01''", OF P D P' D']
  have "fst (calcAge sampleExternals (JString ''2000-01-01'')
        (snd (calcAge sampleExternals (JString ''2000-01-01'') newYear2025)))
      = fst (calcAge sampleExternals (JString ''2000-01-01'') newYear2025)"
    by blast
  with P' D' first count show ?thesis
    by (intro conjI) (assumption | simp only:)+
qed

section \<open>Two inputs at the edge of the declared type\<close>

text \<open>
  Claim C9. The object whose \<open>birthday\<close> is a \<open>Date\<close> with the time value \<open>NaN\<close> belongs to
  the declared parameter type of \<open>calcAge\<close>, as a \<^verbatim>\<open>Person\<close>. \<open>isPerson\<close> is false of it, so
  \<open>calcAge\<close> runs its last branch, and its first call is DateParser on that \<open>Date\<close>: a value
  that is not a text, handed to a function declared to take a text.
\<close>

theorem calcAge_invalid_date_person:
  fixes ext :: "('n, 'w) externals"
  shows "declaredInput (JObject [(''birthday'', JDate None)] :: 'n jsval)
   \<and> hasTypePerson (JObject [(''birthday'', JDate None)] :: 'n jsval)
   \<and> \<not> isPerson (JObject [(''birthday'', JDate None)] :: 'n jsval)
   \<and> calcAge ext (JObject [(''birthday'', JDate None)]) s
       = andThen (callParse ext (JDate None)) (callDiffInYears ext) s
   \<and> (\<exists>rest. calls (snd (calcAge ext (JObject [(''birthday'', JDate None)]) s))
         = calls s @ DateParser (JDate None) # rest)
   \<and> typeof (JDate None :: 'n jsval) \<noteq> ''string''"
proof -
  have run: "calcAge ext (JObject [(''birthday'', JDate None)]) s
       = andThen (callParse ext (JDate None)) (callDiffInYears ext) s"
    by (simp add: calcAge_JObject)
  have "hasTypePerson (JObject [(''birthday'', JDate None)] :: 'n jsval)"
    by (simp add: hasTypePerson_def)
  moreover have "\<not> isPerson (JObject [(''birthday'', JDate None)] :: 'n jsval)"
    by (simp add: isPerson_JObject)
  moreover have "\<exists>rest. calls (snd (calcAge ext (JObject [(''birthday'', JDate None)]) s))
         = calls s @ DateParser (JDate None) # rest"
    unfolding run by (rule parse_then_diff_first_call)
  ultimately show ?thesis
    using run by (simp add: declaredInput_def)
qed

theorem calcAge_invalid_date_person_witness:
  "\<not> isPerson (JObject [(''birthday'', JDate None)] :: int jsval)
   \<and> calcAge sampleExternals (JObject [(''birthday'', JDate None)]) newYear2025
     = (Inl (JsError ''ParseError'' ''not a text''),
        \<lparr>world = \<lparr>now = 1735689600000, parsed = 0\<rparr>, calls = [DateParser (JDate None)]\<rparr>)"
proof -
  have "andThen (callParse sampleExternals (JDate None)) (callDiffInYears sampleExternals) newYear2025
      = (Inl (JsError ''ParseError'' ''not a text''),
        \<lparr>world = \<lparr>now = 1735689600000, parsed = 0\<rparr>, calls = [DateParser (JDate None)]\<rparr>)"
    by code_simp
  with calcAge_invalid_date_person [of sampleExternals newYear2025] show ?thesis
    by simp
qed

text \<open>
  Claim C10. The empty text is not absent: \<open>assertNonNullable\<close> returns on it, and \<open>calcAge\<close>
  is \<^verbatim>\<open>diffInYears(parse(""))\<close>. DateParser is called on the empty text first. When it
  returns, DateDiff is called on what it returned: the result is DateDiff's, the world is the
  one DateDiff left, and the log has grown by exactly these two calls in this order. When it
  throws, \<open>calcAge\<close> throws that error with the one call logged. So whenever \<open>calcAge\<close> throws
  on the empty text, the error is the one DateParser threw, or the one DateDiff threw on
  what DateParser returned; the guard has no part in it.
\<close>

theorem calcAge_empty_text:
  fixes ext :: "('n, 'w) externals"
  shows "assertNonNullable (JString '''' :: 'n jsval) = Inr ()
   \<and> calcAge ext (JString '''') s = andThen (callParse ext (JString '''')) (callDiffInYears ext) s
   \<and> (\<exists>rest. calls (snd (calcAge ext (JString '''') s)) = calls s @ DateParser (JString '''') # rest)
   \<and> (\<forall>d w. parse ext (JString '''') (world s) = (Inr d, w) \<longrightarrow>
        calcAge ext (JString '''') s =
          (fst (diffInYears ext d w),
           \<lparr>world = snd (diffInYears ext d w),
            calls = calls s @ [DateParser (JString ''''), DateDiff d]\<rparr>))
   \<and> (\<forall>e w. parse ext (JString '''') (world s) = (Inl e, w) \<longrightarrow>
        calcAge ext (JString '''') s =
          (Inl e, \<lparr>world = w, calls = calls s @ [DateParser (JString '''')]\<rparr>))
   \<and> (\<forall>e. fst (calcAge ext (JString '''') s) = Inl e \<longrightarrow>
        fst (parse ext (JString '''') (world s)) = Inl e
        \<or> (\<exists>d w. parse ext (JString '''') (world s) = (Inr d, w) \<and> fst (diffInYears ext d w) = Inl e))"
proof (intro conjI allI impI)
  show "assertNonNullable (JString '''' :: 'n jsval) = Inr ()"
    by (simp add: assertNonNullable_def)
  show "calcAge ext (JString '''') s = andThen (callParse ext (JString '''')) (callDiffInYears ext) s"
    by (simp add: calcAge_string)
  show "\<exists>rest. calls (snd (calcAge ext (JString '''') s)) = calls s @ DateParser (JString '''') # rest"
    unfolding calcAge_string by (rule parse_then_diff_first_call)
next
  fix d w
  assume "parse ext (JString '''') (world s) = (Inr d, w)"
  then show "calcAge ext (JString '''') s =
          (fst (diffInYears ext d w),
           \<lparr>world = snd (diffInYears ext d w),
            calls = calls s @ [DateParser (JString ''''), DateDiff d]\<rparr>)"
    by (simp add: calcAge_string parse_then_diff_ok)
next
  fix e w
  assume "parse ext (JString '''') (world s) = (Inl e, w)"
  then show "calcAge ext (JString '''') s =
          (Inl e, \<lparr>world = w, calls = calls s @ [DateParser (JString '''')]\<rparr>)"
    by (simp add: calcAge_string parse_then_diff_throws)
next
  fix e
  assume thrown: "fst (calcAge ext (JString '''') s) = Inl e"
  obtain r w where p: "parse ext (JString '''') (world s) = (r, w)"
    by (cases "parse ext (JString '''') (world s)")
  show "fst (parse ext (JString '''') (world s)) = Inl e
        \<or> (\<exists>d w. parse ext (JString '''') (world s) = (Inr d, w) \<and> fst (diffInYears ext d w) = Inl e)"
  proof (cases r)
    case (Inl e1)
    with thrown p show ?thesis
      by (simp add: calcAge_string fst_parse_then_diff)
  next
    case (Inr d)
    with thrown p have "fst (diffInYears ext d w) = Inl e"
      by (simp add: calcAge_string fst_parse_then_diff)
    with p Inr show ?thesis by blast
  qed
qed

theorem calcAge_empty_text_witness:
  "parse lenientExternals (JString '''') (world newYear2025)
     = (Inr (JDate (Some 0)), \<lparr>now = 1735689600000, parsed = 1\<rparr>)
   \<and> calcAge lenientExternals (JString '''') newYear2025
     = (Inr (JNumber 55),
        \<lparr>world = \<lparr>now = 1735689600000, parsed = 1\<rparr>,
         calls = [DateParser (JString ''''), DateDiff (JDate (Some 0))]\<rparr>)
   \<and> parse sampleExternals (JString '''') (world newYear2025)
     = (Inl (JsError ''ParseError'' ''''), \<lparr>now = 1735689600000, parsed = 0\<rparr>)
   \<and> calcAge sampleExternals (JString '''') newYear2025
     = (Inl (JsError ''ParseError'' ''''),
        \<lparr>world = \<lparr>now = 1735689600000, parsed = 0\<rparr>, calls = [DateParser (JString '''')]\<rparr>)"
proof -
  have p: "parse lenientExternals (JString '''') (world newYear2025)
      = (Inr (JDate (Some 0)), \<lparr>now = 1735689600000, parsed = 1\<rparr>)"
    by code_simp
  have d: "diffInYears lenientExternals (JDate (Some 0)) \<lparr>now = 1735689600000, parsed = 1\<rparr>
      = (Inr (JNumber 55), \<lparr>now = 1735689600000, parsed = 1\<rparr>)"
    by code_simp
  have q: "parse sampleExternals (JString '''') (world newYear2025)
      = (Inl (JsError ''ParseError'' ''''), \<lparr>now = 1735689600000, parsed = 0\<rparr>)"
    by code_simp
  have c: "calls newYear2025 = []"
    by (simp add: newYear2025_def)
  from calcAge_empty_text [of lenientExternals newYear2025] p
  have "calcAge lenientExternals (JString '''') newYear2025 =
      (fst (diffInYears lenientExternals (JDate (Some 0)) \<lparr>now = 1735689600000, parsed = 1\<rparr>),
       \<lparr>world = snd (diffInYears lenientExternals (JDate (Some 0))
           \<lparr>now = 1735689600000, parsed = 1\<rparr>),
        calls = calls newYear2025 @ [DateParser (JString ''''), DateDiff (JDate (Some 0))]\<rparr>)"
    by blast
  moreover from calcAge_empty_text [of sampleExternals newYear2025] q
  have "calcAge sampleExternals (JString '''') newYear2025 =
      (Inl (JsError ''ParseError'' ''''),
       \<lparr>world = \<lparr>now = 1735689600000, parsed = 0\<rparr>,
        calls = calls newYear2025 @ [DateParser (JString '''')]\<rparr>)"
    by blast
  ultimately show ?thesis
    using p q d c by simp
qed

end
